theory Spec2Isabelle
  imports Complex_Main
begin

section \<open>Python values used by the inference service\<close>

text \<open>
  The service of \<^verbatim>\<open>backend/app.py\<close> is glue around three libraries (torch, PIL,
  requests). The embedding keeps the glue as it is written and takes every library call
  as a value of the surroundings: what the call returned, or the exception it raised.
  Strings are \<^typ>\<open>string\<close>; the label catalog is ASCII.
\<close>

subsection \<open>Exceptions\<close>

text \<open>
  An exception is its class and the text \<^verbatim>\<open>str(e)\<close> gives. All classes below derive
  from \<^verbatim>\<open>Exception\<close>, so \<^verbatim>\<open>except Exception\<close> catches each of them. The last six
  are the classes of \<^verbatim>\<open>requests.exceptions\<close>; \<^verbatim>\<open>RequestException\<close> is their base.
\<close>

datatype exn_class =
    TypeError | AttributeError | IndexError | KeyError | ValueError
  | BinasciiError | UnidentifiedImageError | OSError | RuntimeError | BadRequest
  | RequestException | RequestsConnectionError | RequestsTimeout | HTTPError
  | MissingSchema | InvalidURL

datatype exn = Exn exn_class string

fun exn_str :: "exn \<Rightarrow> string" where
  "exn_str (Exn cls msg) = msg"

fun is_request_exception :: "exn \<Rightarrow> bool" where
  "is_request_exception (Exn cls msg) =
     (cls = RequestException \<or> cls = RequestsConnectionError \<or> cls = RequestsTimeout
      \<or> cls = HTTPError \<or> cls = MissingSchema \<or> cls = InvalidURL)"

subsection \<open>Strings and lists\<close>

text \<open>\<^verbatim>\<open>s.startswith(p)\<close>\<close>

definition startswith :: "string \<Rightarrow> string \<Rightarrow> bool" where
  "startswith s p = (take (length p) s = p)"

text \<open>\<^verbatim>\<open>sub in s\<close> for two strings: some suffix of \<open>s\<close> starts with \<open>sub\<close>.\<close>

fun str_contains :: "string \<Rightarrow> string \<Rightarrow> bool" where
  "str_contains sub [] = (sub = [])"
| "str_contains sub (c # cs) = (startswith (c # cs) sub \<or> str_contains sub cs)"

text \<open>
  \<^verbatim>\<open>s.lower()\<close> on ASCII text: each letter of \<^verbatim>\<open>string.ascii_uppercase\<close> moves to
  the letter of \<^verbatim>\<open>string.ascii_lowercase\<close> at the same place, every other character
  stays.
\<close>

definition ascii_uppercase :: string where
  "ascii_uppercase = ''ABCDEFGHIJKLMNOPQRSTUVWXYZ''"

definition ascii_lowercase :: string where
  "ascii_lowercase = ''abcdefghijklmnopqrstuvwxyz''"

definition lower_char :: "char \<Rightarrow> char" where
  "lower_char c =
     (case map_of (zip ascii_uppercase ascii_lowercase) c of None \<Rightarrow> c | Some l \<Rightarrow> l)"

definition lower :: "string \<Rightarrow> string" where
  "lower s = map lower_char s"

text \<open>\<^verbatim>\<open>s.replace(old, new)\<close> for one-character \<open>old\<close> and \<open>new\<close>.\<close>

definition replace_char :: "char \<Rightarrow> char \<Rightarrow> string \<Rightarrow> string" where
  "replace_char old new s = map (\<lambda>c. if c = old then new else c) s"

text \<open>
  \<^verbatim>\<open>s.split(sep)\<close> for a non-empty separator: the text is cut at each occurrence of
  \<open>sep\<close>, found from the left and without overlap. \<open>acc\<close> holds, reversed, the piece
  being read. (Python raises ValueError for an empty separator; the service only
  splits at the literals \<^verbatim>\<open>'___'\<close> and \<^verbatim>\<open>','\<close>.)
\<close>

fun split_acc :: "string \<Rightarrow> string \<Rightarrow> string \<Rightarrow> string list" where
  "split_acc sep acc [] = [rev acc]"
| "split_acc sep acc (c # cs) =
     (if startswith (c # cs) sep
      then rev acc # split_acc sep [] (drop (length sep - 1) cs)
      else split_acc sep (c # acc) cs)"

definition split_str :: "string \<Rightarrow> string \<Rightarrow> string list" where
  "split_str sep s = split_acc sep [] s"

text \<open>
  \<^verbatim>\<open>xs[i]\<close> on a list: a negative index counts from the end, an index outside the
  list raises IndexError.
\<close>

definition py_index :: "'a list \<Rightarrow> int \<Rightarrow> exn + 'a" where
  "py_index xs i =
     (if 0 \<le> i \<and> i < int (length xs) then Inr (xs ! nat i)
      else if i < 0 \<and> - int (length xs) \<le> i then Inr (xs ! nat (int (length xs) + i))
      else Inl (Exn IndexError ''list index out of range''))"

section \<open>The label catalog\<close>

definition CLASS_NAMES :: "string list" where
  "CLASS_NAMES = [
    ''Apple___Apple_scab'',
    ''Apple___Black_rot'',
    ''Apple___Cedar_apple_rust'',
    ''Apple___healthy'',
    ''Blueberry___healthy'',
    ''Cherry_(including_sour)___healthy'',
    ''Cherry_(including_sour)___Powdery_mildew'',
    ''Corn_(maize)___Cercospora_leaf_spot Gray_leaf_spot'',
    ''Corn_(maize)___Common_rust_'',
    ''Corn_(maize)___healthy'',
    ''Corn_(maize)___Northern_Leaf_Blight'',
    ''Grape___Black_rot'',
    ''Grape___Esca_(Black_Measles)'',
    ''Grape___healthy'',
    ''Grape___Leaf_blight_(Isariopsis_Leaf_Spot)'',
    ''Orange___Haunglongbing_(Citrus_greening)'',
    ''Peach___Bacterial_spot'',
    ''Peach___healthy'',
    ''Pepper,_bell___Bacterial_spot'',
    ''Pepper,_bell___healthy'',
    ''Potato___Early_blight'',
    ''Potato___healthy'',
    ''Potato___Late_blight'',
    ''Raspberry___healthy'',
    ''Soybean___healthy'',
    ''Squash___Powdery_mildew'',
    ''Strawberry___healthy'',
    ''Strawberry___Leaf_scorch'',
    ''Strawberry___healthy'',
    ''Tomato___Bacterial_spot'',
    ''Tomato___Early_blight'',
    ''Tomato___Late_blight'',
    ''Tomato___Leaf_Mold'',
    ''Tomato___Septoria_leaf_spot'',
    ''Tomato___Spider_mites Two-spotted_spider_mite'',
    ''Tomato___Target_Spot'',
    ''Tomato___Tomato_Yellow_Leaf_Curl_Virus'',
    ''Tomato___Tomato_mosaic_virus'',
    ''Tomato___healthy'']"

section \<open>Label decomposition\<close>

text \<open>\<^verbatim>\<open>PlantDiseaseModel._extract_plant_type\<close>\<close>

definition extract_plant_type :: "string \<Rightarrow> exn + string" where
  "extract_plant_type class_name =
     (case py_index (split_str ''___'' class_name) 0 of
        Inl e \<Rightarrow> Inl e
      | Inr plant \<Rightarrow> Inr (replace_char CHR ''_'' CHR '' '' plant))"

text \<open>
  \<^verbatim>\<open>PlantDiseaseModel._extract_disease_type\<close>; \<open>None\<close> is Python's \<^verbatim>\<open>None\<close>. The
  read of \<^verbatim>\<open>parts[1]\<close> is guarded by the length test, as in the source.
\<close>

definition extract_disease_type :: "string \<Rightarrow> string option" where
  "extract_disease_type class_name =
     (let parts = split_str ''___'' class_name
      in if length parts > 1 \<and> \<not> str_contains ''healthy'' (lower (parts ! 1))
         then Some (replace_char CHR ''_'' CHR '' '' (parts ! 1))
         else None)"

section \<open>JSON values and HTTP responses\<close>

text \<open>
  A parsed JSON body, as \<^verbatim>\<open>request.get_json()\<close> returns it: \<^verbatim>\<open>None\<close>, a bool, an
  int, a float, a str, a list or a dict. A dict is kept as its list of items, read
  with \<^const>\<open>map_of\<close>.
\<close>

datatype json =
    JNull | JBool bool | JInt int | JFloat real | JStr string
  | JArr "json list" | JObj "(string \<times> json) list"

text \<open>A response is the JSON body given to \<^verbatim>\<open>jsonify\<close> and the status code.\<close>

type_synonym response = "json \<times> nat"

definition error_body :: "string \<Rightarrow> json" where
  "error_body msg = JObj [(''error'', JStr msg)]"

text \<open>
  The texts of the exceptions are CPython's; the quoted names in them are written with
  \<open>py_quote\<close>.
\<close>

definition py_quote :: "string \<Rightarrow> string" where
  "py_quote s = [CHR 0x27] @ s @ [CHR 0x27]"

fun py_type_name :: "json \<Rightarrow> string" where
  "py_type_name JNull = ''NoneType''"
| "py_type_name (JBool b) = ''bool''"
| "py_type_name (JInt i) = ''int''"
| "py_type_name (JFloat x) = ''float''"
| "py_type_name (JStr s) = ''str''"
| "py_type_name (JArr xs) = ''list''"
| "py_type_name (JObj kvs) = ''dict''"

text \<open>
  \<^verbatim>\<open>key in data\<close> for a string \<open>key\<close>: key membership on a dict, element
  membership on a list, substring search on a str, TypeError on every other value.
\<close>

fun py_in :: "string \<Rightarrow> json \<Rightarrow> exn + bool" where
  "py_in k (JObj kvs) = Inr (map_of kvs k \<noteq> None)"
| "py_in k (JArr xs) = Inr (JStr k \<in> set xs)"
| "py_in k (JStr s) = Inr (str_contains k s)"
| "py_in k v =
     Inl (Exn TypeError (''argument of type '' @ py_quote (py_type_name v) @ '' is not iterable''))"

text \<open>
  The interpreter: CPython from 3.11 on names the offending type in the TypeError of
  a str subscript, earlier versions do not.
\<close>

datatype py_version = Before_3_11 | From_3_11

fun str_index_error :: "py_version \<Rightarrow> string" where
  "str_index_error Before_3_11 = ''string indices must be integers''"
| "str_index_error From_3_11 =
     ''string indices must be integers, not '' @ py_quote ''str''"

text \<open>\<^verbatim>\<open>data[key]\<close> for a string \<open>key\<close>.\<close>

fun py_getitem :: "py_version \<Rightarrow> json \<Rightarrow> string \<Rightarrow> exn + json" where
  "py_getitem ver (JObj kvs) k =
     (case map_of kvs k of None \<Rightarrow> Inl (Exn KeyError (py_quote k)) | Some v \<Rightarrow> Inr v)"
| "py_getitem ver (JStr s) k = Inl (Exn TypeError (str_index_error ver))"
| "py_getitem ver (JArr xs) k =
     Inl (Exn TypeError ''list indices must be integers or slices, not str'')"
| "py_getitem ver v k =
     Inl (Exn TypeError (py_quote (py_type_name v) @ '' object is not subscriptable''))"

section \<open>The surroundings\<close>

text \<open>
  A Python object is \<^verbatim>\<open>None\<close> or an object known by its identity; \<^verbatim>\<open>self.model\<close>
  holds one.
\<close>

datatype pyobj = PyNone | PyObject nat

type_synonym bytes = "char list"

text \<open>
  The response of \<^verbatim>\<open>requests.get\<close>: \<open>http_error_msg\<close> is the text that
  \<^verbatim>\<open>raise_for_status\<close> builds from the status, the reason and the URL.
\<close>

record http_response =
  status_code :: nat
  content :: bytes
  http_error_msg :: string

text \<open>
  What the libraries do, one field per call of the source; \<open>'img\<close> is a decoded RGB
  image.
  \<^item> \<open>python\<close>: the version of the interpreter;
  \<^item> \<open>torch_load\<close>: \<^verbatim>\<open>torch.load(model_path, map_location=self.device)\<close>;
  \<^item> \<open>call_eval\<close>: \<^verbatim>\<open>obj.eval()\<close> on an object that is not \<^verbatim>\<open>None\<close>;
  \<^item> \<open>resnet18\<close>: \<^verbatim>\<open>models.resnet18(pretrained=False)\<close>;
  \<^item> \<open>set_fc\<close>: the assignment of a new \<^verbatim>\<open>nn.Linear\<close> to \<^verbatim>\<open>self.model.fc\<close>;
  \<^item> \<open>forward\<close>: lines 92 to 98 of \<^verbatim>\<open>predict\<close>, the transform, the forward pass,
    the softmax and \<^verbatim>\<open>torch.max\<close>, giving \<^verbatim>\<open>confidence.item()\<close> and
    \<^verbatim>\<open>predicted_idx.item()\<close>;
  \<^item> \<open>b64decode\<close>: \<^verbatim>\<open>base64.b64decode\<close>;
  \<^item> \<open>image_open\<close>: \<^verbatim>\<open>Image.open(io.BytesIO(b)).convert('RGB')\<close>. Whether the bytes
    open, and the image they give, depend on the bytes alone; the exception of a failure
    is built from the \<^verbatim>\<open>repr\<close> of the \<^verbatim>\<open>io.BytesIO\<close> object, which holds its address
    and is new in each request;
  \<^item> \<open>requests_get\<close>: \<^verbatim>\<open>requests.get(image_url, timeout=10)\<close>.
\<close>

record 'img externals =
  python :: py_version
  torch_load :: "exn + pyobj"
  call_eval :: "nat \<Rightarrow> exn + unit"
  resnet18 :: "exn + nat"
  set_fc :: "nat \<Rightarrow> exn + unit"
  forward :: "pyobj \<Rightarrow> 'img \<Rightarrow> exn + (real \<times> int)"
  b64decode :: "string \<Rightarrow> exn + bytes"
  image_open :: "bytes \<Rightarrow> (string \<Rightarrow> exn) + 'img"
  requests_get :: "json \<Rightarrow> exn + http_response"

text \<open>\<^verbatim>\<open>obj.eval()\<close>: \<^verbatim>\<open>None\<close> has no such attribute.\<close>

definition py_eval :: "'img externals \<Rightarrow> pyobj \<Rightarrow> exn + unit" where
  "py_eval ext obj =
     (case obj of
        PyNone \<Rightarrow>
          Inl (Exn AttributeError
                 (py_quote ''NoneType'' @ '' object has no attribute '' @ py_quote ''eval''))
      | PyObject k \<Rightarrow> call_eval ext k)"

text \<open>\<^verbatim>\<open>response.raise_for_status()\<close>: HTTPError for a 4xx or 5xx status.\<close>

definition raise_for_status :: "http_response \<Rightarrow> exn + unit" where
  "raise_for_status r =
     (if 400 \<le> status_code r \<and> status_code r < 600
      then Inl (Exn HTTPError (http_error_msg r)) else Inr ())"

section \<open>The model service\<close>

record model_service =
  model :: pyobj

text \<open>
  \<^verbatim>\<open>PlantDiseaseModel.load_model\<close>. The \<^verbatim>\<open>try\<close> block stores what
  \<^verbatim>\<open>torch.load\<close> returned and calls its \<^verbatim>\<open>eval\<close>; an exception of either takes the
  \<^verbatim>\<open>except\<close> branch, which builds the untrained network. An exception inside the
  \<^verbatim>\<open>except\<close> branch leaves \<^verbatim>\<open>load_model\<close>.
\<close>

definition load_fallback :: "'img externals \<Rightarrow> model_service \<Rightarrow> exn + model_service" where
  "load_fallback ext self =
     (case resnet18 ext of
        Inl e \<Rightarrow> Inl e
      | Inr m \<Rightarrow>
          (case set_fc ext m of
             Inl e \<Rightarrow> Inl e
           | Inr u \<Rightarrow>
               (case call_eval ext m of
                  Inl e \<Rightarrow> Inl e
                | Inr u' \<Rightarrow> Inr (self\<lparr>model := PyObject m\<rparr>))))"

definition load_model :: "'img externals \<Rightarrow> model_service \<Rightarrow> exn + model_service" where
  "load_model ext self =
     (case torch_load ext of
        Inl e \<Rightarrow> load_fallback ext self
      | Inr obj \<Rightarrow>
          (case py_eval ext obj of
             Inl e \<Rightarrow> load_fallback ext (self\<lparr>model := obj\<rparr>)
           | Inr u \<Rightarrow> Inr (self\<lparr>model := obj\<rparr>)))"

text \<open>\<^verbatim>\<open>PlantDiseaseModel.__init__\<close>: the model is \<^verbatim>\<open>None\<close>, then loaded.\<close>

definition init_model_service :: "'img externals \<Rightarrow> exn + model_service" where
  "init_model_service ext = load_model ext \<lparr>model = PyNone\<rparr>"

record diagnosis =
  className :: string
  confidence :: real
  isHealthy :: bool
  plantType :: string
  diseaseType :: "string option"

text \<open>The dict that \<^verbatim>\<open>PlantDiseaseModel.predict\<close> returns (lines 103 to 109).\<close>

definition diagnosis_of :: "string \<Rightarrow> real \<Rightarrow> exn + diagnosis" where
  "diagnosis_of predicted_class confidence_score =
     (case extract_plant_type predicted_class of
        Inl e \<Rightarrow> Inl e
      | Inr plant \<Rightarrow>
          Inr \<lparr>className = predicted_class,
               confidence = confidence_score,
               isHealthy = str_contains ''healthy'' (lower predicted_class),
               plantType = plant,
               diseaseType =
                 (if \<not> str_contains ''healthy'' (lower predicted_class)
                  then extract_disease_type predicted_class else None)\<rparr>)"

text \<open>
  \<^verbatim>\<open>PlantDiseaseModel.predict\<close>: every exception of the \<^verbatim>\<open>try\<close> block is caught
  and the result is \<^verbatim>\<open>None\<close>.
\<close>

definition model_predict :: "'img externals \<Rightarrow> model_service \<Rightarrow> 'img \<Rightarrow> diagnosis option" where
  "model_predict ext self img =
     (case forward ext (model self) img of
        Inl e \<Rightarrow> None
      | Inr (confidence_score, predicted_idx) \<Rightarrow>
          (case py_index CLASS_NAMES predicted_idx of
             Inl e \<Rightarrow> None
           | Inr predicted_class \<Rightarrow>
               (case diagnosis_of predicted_class confidence_score of
                  Inl e \<Rightarrow> None
                | Inr result \<Rightarrow> Some result)))"

section \<open>The HTTP handlers\<close>

definition jsonify_result :: "diagnosis \<Rightarrow> json" where
  "jsonify_result r =
     JObj [(''className'', JStr (className r)),
           (''confidence'', JFloat (confidence r)),
           (''isHealthy'', JBool (isHealthy r)),
           (''plantType'', JStr (plantType r)),
           (''diseaseType'', (case diseaseType r of None \<Rightarrow> JNull | Some d \<Rightarrow> JStr d))]"

text \<open>\<^verbatim>\<open>health_check\<close>\<close>

definition health_check :: "model_service \<Rightarrow> response" where
  "health_check model_service =
     (JObj [(''status'', JStr ''healthy''),
            (''model_loaded'', JBool (model model_service \<noteq> PyNone))], 200)"

text \<open>
  The end of both prediction handlers: a result, a non-empty dict, is true in
  \<^verbatim>\<open>if result\<close>; \<^verbatim>\<open>None\<close> is not.
\<close>

definition respond :: "diagnosis option \<Rightarrow> response" where
  "respond result =
     (case result of
        Some r \<Rightarrow> (jsonify_result r, 200)
      | None \<Rightarrow> (error_body ''Prediction failed'', 500))"

text \<open>
  Lines 139 to 142 of \<^verbatim>\<open>predict\<close>: the value under \<^verbatim>\<open>'image'\<close>, without its data URL
  prefix. Only a str has \<^verbatim>\<open>startswith\<close>.
\<close>

definition strip_data_url :: "json \<Rightarrow> exn + string" where
  "strip_data_url image_data =
     (case image_data of
        JStr s \<Rightarrow>
          (if startswith s ''data:image'' then py_index (split_str '','' s) 1 else Inr s)
      | v \<Rightarrow>
          Inl (Exn AttributeError
                 (py_quote (py_type_name v) @ '' object has no attribute ''
                  @ py_quote ''startswith'')))"

text \<open>
  The \<^verbatim>\<open>try\<close> block of \<^verbatim>\<open>predict\<close>; \<open>get_json\<close> is what \<^verbatim>\<open>request.get_json()\<close> did
  and \<open>buf\<close> is the \<^verbatim>\<open>repr\<close> of the \<^verbatim>\<open>io.BytesIO\<close> object that line 145 makes for this
  request.
\<close>

definition predict_try ::
  "'img externals \<Rightarrow> model_service \<Rightarrow> string \<Rightarrow> exn + json \<Rightarrow> exn + response" where
  "predict_try ext model_service buf get_json =
     (case get_json of
        Inl e \<Rightarrow> Inl e
      | Inr data \<Rightarrow>
     (case py_in ''image'' data of
        Inl e \<Rightarrow> Inl e
      | Inr present \<Rightarrow>
          if \<not> present then Inr (error_body ''No image provided'', 400)
          else
     (case py_getitem (python ext) data ''image'' of
        Inl e \<Rightarrow> Inl e
      | Inr image_data \<Rightarrow>
     (case strip_data_url image_data of
        Inl e \<Rightarrow> Inl e
      | Inr payload \<Rightarrow>
     (case b64decode ext payload of
        Inl e \<Rightarrow> Inl e
      | Inr image_bytes \<Rightarrow>
     (case image_open ext image_bytes of
        Inl raise \<Rightarrow> Inl (raise buf)
      | Inr img \<Rightarrow> Inr (respond (model_predict ext model_service img))))))))"

text \<open>\<^verbatim>\<open>predict\<close>, the handler of POST /predict.\<close>

definition predict ::
  "'img externals \<Rightarrow> model_service \<Rightarrow> string \<Rightarrow> exn + json \<Rightarrow> response" where
  "predict ext model_service buf get_json =
     (case predict_try ext model_service buf get_json of
        Inr resp \<Rightarrow> resp
      | Inl e \<Rightarrow> (error_body (exn_str e), 500))"

text \<open>
  The \<^verbatim>\<open>try\<close> block of \<^verbatim>\<open>predict_from_url\<close>; \<open>buf\<close> stands for the
  \<^verbatim>\<open>io.BytesIO\<close> object of line 178.
\<close>

definition predict_from_url_try ::
  "'img externals \<Rightarrow> model_service \<Rightarrow> string \<Rightarrow> exn + json \<Rightarrow> exn + response" where
  "predict_from_url_try ext model_service buf get_json =
     (case get_json of
        Inl e \<Rightarrow> Inl e
      | Inr data \<Rightarrow>
     (case py_in ''url'' data of
        Inl e \<Rightarrow> Inl e
      | Inr present \<Rightarrow>
          if \<not> present then Inr (error_body ''No image URL provided'', 400)
          else
     (case py_getitem (python ext) data ''url'' of
        Inl e \<Rightarrow> Inl e
      | Inr image_url \<Rightarrow>
     (case requests_get ext image_url of
        Inl e \<Rightarrow> Inl e
      | Inr resp \<Rightarrow>
     (case raise_for_status resp of
        Inl e \<Rightarrow> Inl e
      | Inr u \<Rightarrow>
     (case image_open ext (content resp) of
        Inl raise \<Rightarrow> Inl (raise buf)
      | Inr img \<Rightarrow> Inr (respond (model_predict ext model_service img))))))))"

text \<open>
  \<^verbatim>\<open>predict_from_url\<close>, the handler of POST /predict_url: the first \<^verbatim>\<open>except\<close>
  clause takes the exceptions of \<^verbatim>\<open>requests\<close>, the second every other one.
\<close>

definition predict_from_url ::
  "'img externals \<Rightarrow> model_service \<Rightarrow> string \<Rightarrow> exn + json \<Rightarrow> response" where
  "predict_from_url ext model_service buf get_json =
     (case predict_from_url_try ext model_service buf get_json of
        Inr resp \<Rightarrow> resp
      | Inl e \<Rightarrow>
          if is_request_exception e
          then (error_body (''Failed to download image: '' @ exn_str e), 400)
          else (error_body (exn_str e), 500))"

section \<open>Terms used in the properties\<close>

text \<open>
  The characters of a base64 text: the letters, the digits, \<^verbatim>\<open>+\<close>, \<^verbatim>\<open>/\<close> and the
  padding \<^verbatim>\<open>=\<close>.
\<close>

definition is_base64_char :: "char \<Rightarrow> bool" where
  "is_base64_char c =
     ((65 \<le> (of_char c :: nat) \<and> (of_char c :: nat) \<le> 90)
      \<or> (97 \<le> (of_char c :: nat) \<and> (of_char c :: nat) \<le> 122)
      \<or> (48 \<le> (of_char c :: nat) \<and> (of_char c :: nat) \<le> 57)
      \<or> c = CHR ''+'' \<or> c = CHR ''/'' \<or> c = CHR ''='')"

definition base64_payload :: "string \<Rightarrow> bool" where
  "base64_payload s = list_all is_base64_char s"

text \<open>
  A text spells \<^verbatim>\<open>healthy\<close> in some mix of cases: it has seven characters and each is
  the small or the capital letter of that place. This is written without \<^const>\<open>lower\<close>.
\<close>

definition spells_healthy :: "string \<Rightarrow> bool" where
  "spells_healthy w =
     list_all2 (\<lambda>c (small, capital). c = small \<or> c = capital) w
       (zip ''healthy'' ''HEALTHY'')"


section \<open>Sample surroundings\<close>

text \<open>
  A PNG file of one green pixel, its base64 text, and the \<^verbatim>\<open>repr\<close> of two
  \<^verbatim>\<open>io.BytesIO\<close> objects.
\<close>

definition sample_png :: bytes where
  "sample_png = [
      CHR 0x89, CHR 0x50, CHR 0x4E, CHR 0x47, CHR 0x0D, CHR 0x0A, CHR 0x1A, CHR 0x0A, CHR
      0x00, CHR 0x00, CHR 0x00, CHR 0x0D, CHR 0x49, CHR 0x48, CHR 0x44, CHR 0x52, CHR
      0x00, CHR 0x00, CHR 0x00, CHR 0x01, CHR 0x00, CHR 0x00, CHR 0x00, CHR 0x01, CHR
      0x08, CHR 0x02, CHR 0x00, CHR 0x00, CHR 0x00, CHR 0x90, CHR 0x77, CHR 0x53, CHR
      0xDE, CHR 0x00, CHR 0x00, CHR 0x00, CHR 0x0C, CHR 0x49, CHR 0x44, CHR 0x41, CHR
      0x54, CHR 0x78, CHR 0xDA, CHR 0x63, CHR 0x60, CHR 0x68, CHR 0x60, CHR 0x00, CHR
      0x00, CHR 0x01, CHR 0x04, CHR 0x00, CHR 0x81, CHR 0x4E, CHR 0x0B, CHR 0x14, CHR
      0x09, CHR 0x00, CHR 0x00, CHR 0x00, CHR 0x00, CHR 0x49, CHR 0x45, CHR 0x4E, CHR
      0x44, CHR 0xAE, CHR 0x42, CHR 0x60, CHR 0x82]"

definition sample_payload :: string where
  "sample_payload =
     ''iVBORw0KGgoAAAANSUhEUgAAAAEAAAABCAIAAACQd1PeAAAADElEQVR42mNgaGAAAAEEAIFOCxQJAAAAAElFTkSuQmCC''"

definition sample_buffer :: string where
  "sample_buffer = ''<_io.BytesIO object at 0x7f3a5c0b1e50>''"

definition other_buffer :: string where
  "other_buffer = ''<_io.BytesIO object at 0x7f3a5c0b2f40>''"

text \<open>
  \<^verbatim>\<open>base64.b64decode\<close> on the two payloads used below, and an \<^verbatim>\<open>Image.open\<close> that
  knows the sample file and refuses all other bytes with PIL's text.
\<close>

definition sample_b64decode :: "string \<Rightarrow> exn + bytes" where
  "sample_b64decode s =
     (case map_of [(sample_payload, sample_png), (''QUJD'', ''ABC'')] s of
        Some b \<Rightarrow> Inr b
      | None \<Rightarrow> Inl (Exn BinasciiError ''Incorrect padding''))"

definition sample_image_open :: "bytes \<Rightarrow> (string \<Rightarrow> exn) + unit" where
  "sample_image_open b =
     (if b = sample_png then Inr ()
      else Inl (\<lambda>buf. Exn UnidentifiedImageError (''cannot identify image file '' @ buf)))"

text \<open>
  Surroundings in which the weights file is missing, the fallback network is built,
  the network answers class 3 with confidence 1 and every URL gives the sample file; the
  variants change one call each.
\<close>

definition sample_externals :: "unit externals" where
  "sample_externals =
     \<lparr>python = From_3_11,
      torch_load = Inl (Exn OSError ''No such file or directory''),
      call_eval = (\<lambda>k. Inr ()),
      resnet18 = Inr 0,
      set_fc = (\<lambda>k. Inr ()),
      forward = (\<lambda>m i. Inr (1, 3)),
      b64decode = sample_b64decode,
      image_open = sample_image_open,
      requests_get =
        (\<lambda>u. Inr \<lparr>status_code = 200, content = sample_png, http_error_msg = []\<rparr>)\<rparr>"

definition sample_service :: model_service where
  "sample_service = \<lparr>model = PyObject 0\<rparr>"

definition externals_weights_loaded :: "unit externals" where
  "externals_weights_loaded = sample_externals\<lparr>torch_load := Inr (PyObject 7)\<rparr>"

definition externals_index_39 :: "unit externals" where
  "externals_index_39 = sample_externals\<lparr>forward := (\<lambda>m i. Inr (1, 39))\<rparr>"

definition externals_forward_raises :: "unit externals" where
  "externals_forward_raises =
     sample_externals\<lparr>forward := (\<lambda>m i. Inl (Exn RuntimeError ''shape mismatch''))\<rparr>"

definition externals_unreachable :: "unit externals" where
  "externals_unreachable =
     sample_externals\<lparr>requests_get :=
       (\<lambda>u. Inl (Exn RequestsConnectionError ''Max retries exceeded''))\<rparr>"

text \<open>Surroundings in which every URL is answered with the given status and body.\<close>

definition externals_status :: "nat \<Rightarrow> bytes \<Rightarrow> string \<Rightarrow> unit externals" where
  "externals_status code body msg =
     sample_externals\<lparr>requests_get :=
       (\<lambda>u. Inr \<lparr>status_code = code, content = body, http_error_msg = msg\<rparr>)\<rparr>"

section \<open>Strings: what the searches compute\<close>

lemma startswith_iff: "startswith s p \<longleftrightarrow> (\<exists>suf. s = p @ suf)"
  unfolding startswith_def
  by (metis append_eq_conv_conj append_take_drop_id)

lemma str_contains_iff: "str_contains sub s \<longleftrightarrow> (\<exists>pre suf. s = pre @ sub @ suf)"
proof (induction s)
  case Nil
  then show ?case by auto
next
  case (Cons c cs)
  show ?case
  proof
    assume "str_contains sub (c # cs)"
    then consider "startswith (c # cs) sub" | "str_contains sub cs" by auto
    then show "\<exists>pre suf. c # cs = pre @ sub @ suf"
    proof cases
      case 1
      then obtain suf where "c # cs = sub @ suf" by (auto simp: startswith_iff)
      then have "c # cs = [] @ sub @ suf" by simp
      then show ?thesis by blast
    next
      case 2
      then obtain pre suf where "cs = pre @ sub @ suf" using Cons.IH by auto
      then have "c # cs = (c # pre) @ sub @ suf" by simp
      then show ?thesis by blast
    qed
  next
    assume "\<exists>pre suf. c # cs = pre @ sub @ suf"
    then obtain pre suf where eq: "c # cs = pre @ sub @ suf" by auto
    show "str_contains sub (c # cs)"
    proof (cases pre)
      case Nil
      then have "startswith (c # cs) sub" using eq by (auto simp: startswith_iff)
      then show ?thesis by simp
    next
      case (Cons p ps)
      then have "cs = ps @ sub @ suf" using eq by simp
      then have "str_contains sub cs" using Cons.IH by blast
      then show ?thesis by simp
    qed
  qed
qed


lemma str_contains_single: "str_contains [c] s \<longleftrightarrow> c \<in> set s"
  by (induction s) (auto simp: startswith_def)

lemma lower_append: "lower (a @ b) = lower a @ lower b"
  by (simp add: lower_def)


section \<open>Splitting\<close>

lemma split_acc_not_Nil: "split_acc sep acc s \<noteq> []"
  by (induction sep acc s rule: split_acc.induct) auto

lemma split_acc_no_sep:
  "sep \<noteq> [] \<Longrightarrow> \<not> str_contains sep s \<Longrightarrow> split_acc sep acc s = [rev acc @ s]"
  by (induction s arbitrary: acc) auto

lemma split_acc_first:
  assumes "sep \<noteq> []" and "\<not> str_contains sep (pre @ butlast sep)"
  shows "split_acc sep acc (pre @ sep @ rest) = (rev acc @ pre) # split_acc sep [] rest"
  using assms(2)
proof (induction pre arbitrary: acc)
  case Nil
  obtain c cs where sep: "sep = c # cs" using assms(1) by (cases sep) auto
  have "startswith (sep @ rest) sep" by (simp add: startswith_iff)
  then show ?case by (simp add: sep)
next
  case (Cons p ps)
  have no: "\<not> startswith (p # ps @ sep @ rest) sep"
  proof
    assume "startswith (p # ps @ sep @ rest) sep"
    then obtain suf where suf: "p # ps @ sep @ rest = sep @ suf"
      by (auto simp: startswith_iff)
    have sep: "butlast sep @ [last sep] = sep" using assms(1) by simp
    have "length sep \<le> length ((p # ps) @ butlast sep)" by simp
    moreover have "((p # ps) @ butlast sep) @ ([last sep] @ rest) = sep @ suf"
      using suf sep by (metis append.assoc append_Cons)
    ultimately obtain t where "(p # ps) @ butlast sep = sep @ t"
      by (metis append_eq_append_conv_if append_take_drop_id)
    then have "startswith ((p # ps) @ butlast sep) sep" unfolding startswith_iff by blast
    then have "str_contains sep ((p # ps) @ butlast sep)" by simp
    then show False using Cons.prems by simp
  qed
  have "\<not> str_contains sep (ps @ butlast sep)" using Cons.prems by simp
  then have "split_acc sep (p # acc) (ps @ sep @ rest)
               = (rev (p # acc) @ ps) # split_acc sep [] rest"
    by (rule Cons.IH)
  then show ?case using no by simp
qed






section \<open>Indexing and the predictor's result\<close>

lemma py_index_0: "xs \<noteq> [] \<Longrightarrow> py_index xs 0 = Inr (hd xs)"
  by (cases xs) (simp_all add: py_index_def)

lemma py_index_in_set: "py_index xs i = Inr x \<Longrightarrow> x \<in> set xs"
  by (auto simp: py_index_def split: if_splits)

lemma length_CLASS_NAMES: "length CLASS_NAMES = 39"
  by (simp add: CLASS_NAMES_def)

lemma extract_plant_type_eq:
  "extract_plant_type label = Inr (replace_char CHR ''_'' CHR '' '' (hd (split_str ''___'' label)))"
  by (simp add: extract_plant_type_def split_str_def py_index_0 split_acc_not_Nil)

lemma diagnosis_of_eq:
  "diagnosis_of label c =
     Inr \<lparr>className = label, confidence = c,
          isHealthy = str_contains ''healthy'' (lower label),
          plantType = replace_char CHR ''_'' CHR '' '' (hd (split_str ''___'' label)),
          diseaseType = (if \<not> str_contains ''healthy'' (lower label)
                         then extract_disease_type label else None)\<rparr>"
  by (simp add: diagnosis_of_def extract_plant_type_eq)

lemma diagnosis_of_fields:
  assumes "diagnosis_of label c = Inr r"
  shows "className r = label"
    and "confidence r = c"
    and "isHealthy r = str_contains ''healthy'' (lower label)"
    and "plantType r = replace_char CHR ''_'' CHR '' '' (hd (split_str ''___'' label))"
    and "diseaseType r = (if \<not> str_contains ''healthy'' (lower label)
                          then extract_disease_type label else None)"
  using assms[symmetric] by (simp_all add: diagnosis_of_eq)

lemma model_predict_Some:
  assumes "model_predict ext svc img = Some r"
  shows "\<exists>c i. forward ext (model svc) img = Inr (c, i)
               \<and> py_index CLASS_NAMES i = Inr (className r)
               \<and> diagnosis_of (className r) c = Inr r"
  using assms
  by (auto simp: model_predict_def diagnosis_of_eq split: sum.splits prod.splits)


section \<open>Lowercasing and replacing, letter by letter\<close>

lemma lower_char_small:
  "lower_char c = CHR ''h'' \<longleftrightarrow> c = CHR ''h'' \<or> c = CHR ''H''"
  "lower_char c = CHR ''e'' \<longleftrightarrow> c = CHR ''e'' \<or> c = CHR ''E''"
  "lower_char c = CHR ''a'' \<longleftrightarrow> c = CHR ''a'' \<or> c = CHR ''A''"
  "lower_char c = CHR ''l'' \<longleftrightarrow> c = CHR ''l'' \<or> c = CHR ''L''"
  "lower_char c = CHR ''t'' \<longleftrightarrow> c = CHR ''t'' \<or> c = CHR ''T''"
  "lower_char c = CHR ''y'' \<longleftrightarrow> c = CHR ''y'' \<or> c = CHR ''Y''"
  by (simp_all add: lower_char_def ascii_uppercase_def ascii_lowercase_def)

lemma map_eq_seven:
  "map f w = [a1, a2, a3, a4, a5, a6, a7] \<longleftrightarrow>
     (\<exists>c1 c2 c3 c4 c5 c6 c7. w = [c1, c2, c3, c4, c5, c6, c7]
        \<and> f c1 = a1 \<and> f c2 = a2 \<and> f c3 = a3 \<and> f c4 = a4 \<and> f c5 = a5 \<and> f c6 = a6
        \<and> f c7 = a7)"
  by (auto simp: map_eq_Cons_conv)

lemma list_all2_seven:
  "list_all2 P w [a1, a2, a3, a4, a5, a6, a7] \<longleftrightarrow>
     (\<exists>c1 c2 c3 c4 c5 c6 c7. w = [c1, c2, c3, c4, c5, c6, c7]
        \<and> P c1 a1 \<and> P c2 a2 \<and> P c3 a3 \<and> P c4 a4 \<and> P c5 a5 \<and> P c6 a6 \<and> P c7 a7)"
  by (auto simp: list_all2_Cons2)

lemma healthy_pairs:
  "zip ''healthy'' ''HEALTHY''
     = [(CHR ''h'', CHR ''H''), (CHR ''e'', CHR ''E''), (CHR ''a'', CHR ''A''),
        (CHR ''l'', CHR ''L''), (CHR ''t'', CHR ''T''), (CHR ''h'', CHR ''H''),
        (CHR ''y'', CHR ''Y'')]"
  by simp

lemma lower_eq_healthy: "lower w = ''healthy'' \<longleftrightarrow> spells_healthy w"
proof -
  have "''healthy'' = [CHR ''h'', CHR ''e'', CHR ''a'', CHR ''l'', CHR ''t'', CHR ''h'',
                       CHR ''y'']" by simp
  then have "lower w = ''healthy'' \<longleftrightarrow>
        (\<exists>c1 c2 c3 c4 c5 c6 c7. w = [c1, c2, c3, c4, c5, c6, c7]
           \<and> lower_char c1 = CHR ''h'' \<and> lower_char c2 = CHR ''e''
           \<and> lower_char c3 = CHR ''a'' \<and> lower_char c4 = CHR ''l''
           \<and> lower_char c5 = CHR ''t'' \<and> lower_char c6 = CHR ''h''
           \<and> lower_char c7 = CHR ''y'')"
    unfolding lower_def by (simp only: map_eq_seven)
  also have "\<dots> \<longleftrightarrow> spells_healthy w"
    unfolding spells_healthy_def healthy_pairs list_all2_seven lower_char_small
    by (simp only: prod.case)
  finally show ?thesis .
qed

lemma map_eq_middle:
  assumes "map f xs = a @ b @ c"
  shows "\<exists>x y z. xs = x @ y @ z \<and> map f y = b"
proof -
  have "\<exists>us vs. xs = us @ vs \<and> a = map f us \<and> b @ c = map f vs"
    using assms by (simp only: map_eq_append_conv)
  then obtain x rest where x: "xs = x @ rest" and r: "map f rest = b @ c" by metis
  have "\<exists>us vs. rest = us @ vs \<and> b = map f us \<and> c = map f vs"
    using r by (simp only: map_eq_append_conv)
  then obtain y z where "rest = y @ z" and "map f y = b" by metis
  then show ?thesis using x by blast
qed

lemma lower_contains_iff:
  "(\<exists>pre suf. lower label = pre @ t @ suf)
     \<longleftrightarrow> (\<exists>pre w suf. label = pre @ w @ suf \<and> lower w = t)"
proof
  assume "\<exists>pre suf. lower label = pre @ t @ suf"
  then obtain pre suf where "map lower_char label = pre @ t @ suf"
    unfolding lower_def by blast
  then have "\<exists>x y z. label = x @ y @ z \<and> map lower_char y = t"
    by (rule map_eq_middle)
  then show "\<exists>pre w suf. label = pre @ w @ suf \<and> lower w = t"
    unfolding lower_def .
next
  assume "\<exists>pre w suf. label = pre @ w @ suf \<and> lower w = t"
  then obtain pre w suf where l: "label = pre @ w @ suf" and "lower w = t" by blast
  then have "lower label = lower pre @ t @ lower suf"
    by (simp only: lower_append)
  then show "\<exists>pre suf. lower label = pre @ t @ suf" by blast
qed

lemma lower_contains_healthy:
  "(\<exists>pre suf. lower label = pre @ ''healthy'' @ suf)
     \<longleftrightarrow> (\<exists>pre w suf. label = pre @ w @ suf \<and> spells_healthy w)"
  by (simp only: lower_contains_iff lower_eq_healthy)





section \<open>The handlers, once an image is at hand\<close>

lemma predict_image_decoded:
  assumes "map_of kvs ''image'' = Some v" and "strip_data_url v = Inr p"
    and "b64decode ext p = Inr bs" and "image_open ext bs = Inr img"
  shows "predict ext svc buf (Inr (JObj kvs)) = respond (model_predict ext svc img)"
  by (simp add: predict_def predict_try_def assms)

lemma predict_payload:
  assumes "strip_data_url (JStr x) = Inr p"
  shows "predict ext svc buf (Inr (JObj ((''image'', JStr x) # other)))
           = (case b64decode ext p of
                Inl e \<Rightarrow> (error_body (exn_str e), 500)
              | Inr bs \<Rightarrow>
                  (case image_open ext bs of
                     Inl raise \<Rightarrow> (error_body (exn_str (raise buf)), 500)
                   | Inr img \<Rightarrow> respond (model_predict ext svc img)))"
  by (simp add: predict_def predict_try_def assms split: sum.splits)

lemma snd_respond: "snd (respond result) = (if result = None then 500 else 200)"
  by (simp add: respond_def split: option.splits)

lemma predict_from_url_downloaded:
  assumes "map_of kvs ''url'' = Some u" and "requests_get ext u = Inr resp"
    and "raise_for_status resp = Inr ()" and "image_open ext (content resp) = Inr img"
  shows "predict_from_url ext svc buf (Inr (JObj kvs)) = respond (model_predict ext svc img)"
  by (simp add: predict_from_url_def predict_from_url_try_def assms)

lemma model_predict_in_range:
  assumes "forward ext (model svc) img = Inr (conf, idx)"
    and "0 \<le> idx" and "idx < int (length CLASS_NAMES)"
  shows "\<exists>r. model_predict ext svc img = Some r \<and> className r = CLASS_NAMES ! nat idx
             \<and> confidence r = conf"
  using assms by (simp add: model_predict_def py_index_def diagnosis_of_eq)

lemma model_predict_out_of_range:
  assumes "forward ext (model svc) img = Inr (conf, idx)"
    and "int (length CLASS_NAMES) \<le> idx"
  shows "model_predict ext svc img = None"
  using assms by (simp add: model_predict_def py_index_def)

lemma load_fallback_model:
  assumes "load_fallback ext self = Inr svc"
  shows "\<exists>m. resnet18 ext = Inr m \<and> model svc = PyObject m"
  using assms by (auto simp: load_fallback_def split: sum.splits)

lemma load_model_cases:
  assumes "load_model ext self = Inr svc"
  shows "(\<exists>obj. torch_load ext = Inr obj \<and> py_eval ext obj = Inr () \<and> model svc = obj)
         \<or> (\<exists>m. resnet18 ext = Inr m \<and> model svc = PyObject m)"
  using assms load_fallback_model
  by (fastforce simp: load_model_def split: sum.splits)

lemma py_eval_None: "py_eval ext PyNone \<noteq> Inr u"
  by (simp add: py_eval_def)

lemma base64_payload_no_comma: "base64_payload s \<Longrightarrow> CHR '','' \<notin> set s"
  by (auto simp: base64_payload_def list_all_iff is_base64_char_def)

lemma base64_payload_no_colon: "base64_payload s \<Longrightarrow> CHR '':'' \<notin> set s"
  by (auto simp: base64_payload_def list_all_iff is_base64_char_def)

lemma base64_payload_not_data_url:
  assumes "base64_payload s"
  shows "\<not> startswith s ''data:image''"
proof
  assume "startswith s ''data:image''"
  then obtain suf where "s = ''data:image'' @ suf" by (auto simp: startswith_iff)
  then have "CHR '':'' \<in> set s" by simp
  then show False using base64_payload_no_colon[OF assms] by simp
qed

lemma split_comma_data_url:
  assumes "CHR '','' \<notin> set header" and "CHR '','' \<notin> set s"
  shows "split_str '','' (header @ '','' @ s) = [header, s]"
proof -
  have "\<not> str_contains '','' (header @ butlast '','')"
    using assms(1) by (simp add: str_contains_single)
  then have "split_acc '','' [] (header @ '','' @ s) = (rev [] @ header) # split_acc '','' [] s"
    by (intro split_acc_first) simp_all
  moreover have "split_acc '','' [] s = [rev [] @ s]"
    using assms(2) by (intro split_acc_no_sep) (simp_all add: str_contains_single)
  ultimately show ?thesis by (simp add: split_str_def)
qed

lemma strip_data_url_prefixed:
  assumes "CHR '','' \<notin> set subtype" and "CHR '','' \<notin> set s"
  shows "strip_data_url (JStr (''data:image/'' @ subtype @ '';base64,'' @ s)) = Inr s"
proof -
  have eq: "''data:image/'' @ subtype @ '';base64,'' @ s
              = (''data:image/'' @ subtype @ '';base64'') @ '','' @ s" by simp
  have "CHR '','' \<notin> set (''data:image/'' @ subtype @ '';base64'')" using assms(1) by simp
  then have sp: "split_str '','' ((''data:image/'' @ subtype @ '';base64'') @ '','' @ s)
                  = [''data:image/'' @ subtype @ '';base64'', s]"
    using assms(2) by (rule split_comma_data_url)
  have st: "startswith (''data:image/'' @ subtype @ '';base64,'' @ s) ''data:image''"
    by (simp add: startswith_def)
  show ?thesis
    unfolding strip_data_url_def json.case using st
    by (simp only: if_True eq sp) (simp add: py_index_def)
qed

section \<open>The sample surroundings, step by step\<close>

lemma sample_payload_steps:
  "strip_data_url (JStr sample_payload) = Inr sample_payload"
  "sample_b64decode sample_payload = Inr sample_png"
  "sample_image_open sample_png = Inr ()"
  by (simp_all add: strip_data_url_def startswith_def sample_payload_def
        sample_b64decode_def sample_image_open_def)

lemma sample_text_steps:
  "strip_data_url (JStr ''QUJD'') = Inr ''QUJD''"
  "sample_b64decode ''QUJD'' = Inr ''ABC''"
  "sample_image_open ''ABC''
     = Inl (\<lambda>buf. Exn UnidentifiedImageError (''cannot identify image file '' @ buf))"
  by (simp_all add: strip_data_url_def startswith_def sample_payload_def
        sample_b64decode_def sample_image_open_def sample_png_def)

lemma sample_payload_base64: "base64_payload sample_payload"
  by (simp add: base64_payload_def is_base64_char_def sample_payload_def)

section \<open>Properties of the labels\<close>

text \<open>
  C1. For every label string, the predictor's \<open>isHealthy\<close> field is true if and only if
  the label, lowercased, contains the substring "healthy": the lowercased label is some
  text, then \<^verbatim>\<open>healthy\<close>, then some text; in other words the label itself holds
  seven characters in a row that spell \<^verbatim>\<open>healthy\<close> in some mix of small and capital
  letters. The first part states it for the result built from any label, the second
  for every result the predictor returns, whose label is one of the catalog.
\<close>

theorem isHealthy_iff_contains_healthy:
  "(\<exists>r. diagnosis_of label c = Inr r
        \<and> (isHealthy r \<longleftrightarrow> (\<exists>pre suf. lower label = pre @ ''healthy'' @ suf))
        \<and> (isHealthy r \<longleftrightarrow> (\<exists>pre w suf. label = pre @ w @ suf \<and> spells_healthy w)))
   \<and> (\<forall>r. model_predict ext svc img = Some r \<longrightarrow>
          className r \<in> set CLASS_NAMES
          \<and> (isHealthy r \<longleftrightarrow> (\<exists>pre suf. lower (className r) = pre @ ''healthy'' @ suf))
          \<and> (isHealthy r
               \<longleftrightarrow> (\<exists>pre w suf. className r = pre @ w @ suf \<and> spells_healthy w)))"
proof (intro conjI allI impI)
  show "\<exists>r. diagnosis_of label c = Inr r
          \<and> (isHealthy r \<longleftrightarrow> (\<exists>pre suf. lower label = pre @ ''healthy'' @ suf))
          \<and> (isHealthy r \<longleftrightarrow> (\<exists>pre w suf. label = pre @ w @ suf \<and> spells_healthy w))"
    unfolding lower_contains_healthy[symmetric]
    by (simp add: diagnosis_of_eq str_contains_iff)
next
  fix r assume some: "model_predict ext svc img = Some r"
  then obtain c' i where idx: "py_index CLASS_NAMES i = Inr (className r)"
    and d: "diagnosis_of (className r) c' = Inr r"
    using model_predict_Some[OF some] by blast
  show "className r \<in> set CLASS_NAMES" using idx by (rule py_index_in_set)
  have "isHealthy r = str_contains ''healthy'' (lower (className r))"
    using d by (rule diagnosis_of_fields)
  then show h: "isHealthy r \<longleftrightarrow> (\<exists>pre suf. lower (className r) = pre @ ''healthy'' @ suf)"
    by (simp add: str_contains_iff)
  show "isHealthy r \<longleftrightarrow> (\<exists>pre w suf. className r = pre @ w @ suf \<and> spells_healthy w)"
    using h by (simp only: lower_contains_healthy)
qed

theorem isHealthy_iff_contains_healthy_witness:
  "(\<exists>r. diagnosis_of ''Apple___HEALTHY'' 1 = Inr r \<and> isHealthy r)
   \<and> (\<exists>r. diagnosis_of ''Tomato_HeAlThY_leaf'' 1 = Inr r \<and> isHealthy r)
   \<and> (\<exists>r. model_predict sample_externals sample_service () = Some r
          \<and> className r = ''Apple___healthy'' \<and> isHealthy r)"
proof -
  have sp1: "spells_healthy ''HEALTHY''" by (simp add: spells_healthy_def)
  have "''Apple___HEALTHY'' = ''Apple___'' @ ''HEALTHY'' @ []" by simp
  then have e1: "\<exists>pre w suf. ''Apple___HEALTHY'' = pre @ w @ suf \<and> spells_healthy w"
    using sp1 by blast
  obtain r1 where r1: "diagnosis_of ''Apple___HEALTHY'' 1 = Inr r1" and h1: "isHealthy r1"
    using isHealthy_iff_contains_healthy
            [of "''Apple___HEALTHY''" 1 sample_externals sample_service "()"] e1
    by blast
  have sp2: "spells_healthy ''HeAlThY''" by (simp add: spells_healthy_def)
  have "''Tomato_HeAlThY_leaf'' = ''Tomato_'' @ ''HeAlThY'' @ ''_leaf''" by simp
  then have e2: "\<exists>pre w suf. ''Tomato_HeAlThY_leaf'' = pre @ w @ suf \<and> spells_healthy w"
    using sp2 by blast
  obtain r2 where r2: "diagnosis_of ''Tomato_HeAlThY_leaf'' 1 = Inr r2"
    and h2: "isHealthy r2"
    using isHealthy_iff_contains_healthy
            [of "''Tomato_HeAlThY_leaf''" 1 sample_externals sample_service "()"] e2
    by blast
  note c1 = isHealthy_iff_contains_healthy
              [of "''Apple___healthy''" 1 sample_externals sample_service "()"]
  have sp3: "spells_healthy ''healthy''" by (simp add: spells_healthy_def)
  have "''Apple___healthy'' = ''Apple___'' @ ''healthy'' @ []" by simp
  then have e3: "\<exists>pre w suf. ''Apple___healthy'' = pre @ w @ suf \<and> spells_healthy w"
    using sp3 by blast
  obtain r where r: "diagnosis_of ''Apple___healthy'' 1 = Inr r" and h: "isHealthy r"
    using c1 e3 by blast
  have idx: "py_index CLASS_NAMES 3 = Inr ''Apple___healthy''"
    by (simp add: py_index_def CLASS_NAMES_def)
  have p: "model_predict sample_externals sample_service () = Some r"
    by (simp add: model_predict_def sample_externals_def idx r)
  have "className r = ''Apple___healthy''"
    using r by (rule diagnosis_of_fields)
  then show ?thesis using r1 h1 r2 h2 h p by blast
qed



text \<open>
  C3. The catalog holds the label \<^verbatim>\<open>Strawberry___healthy\<close> at the indices 26 and 28:
  it is not a list of unique strings.
\<close>

theorem CLASS_NAMES_repeats_a_label:
  "py_index CLASS_NAMES 26 = Inr ''Strawberry___healthy''
   \<and> py_index CLASS_NAMES 28 = Inr ''Strawberry___healthy''
   \<and> \<not> distinct CLASS_NAMES"
  by (simp add: py_index_def CLASS_NAMES_def)

section \<open>Properties of the service\<close>

text \<open>
  C4, as amended. When the forward pass returns an index, no test compares the catalog
  with the network: an index from 0 up to the catalog's length is answered with the
  label at that index, status 200. An index at or beyond the catalog's length is not
  answered with a label: the lookup raises, the predictor returns \<^verbatim>\<open>None\<close> and
  POST /predict answers 500 with the body \<^verbatim>\<open>{"error": "Prediction failed"}\<close>.
\<close>

theorem index_to_label_mapping:
  assumes "map_of kvs ''image'' = Some v" and "strip_data_url v = Inr p"
    and "b64decode ext p = Inr bs" and "image_open ext bs = Inr img"
    and "forward ext (model svc) img = Inr (conf, idx)"
  shows "(0 \<le> idx \<and> idx < int (length CLASS_NAMES) \<longrightarrow>
            (\<exists>r. model_predict ext svc img = Some r
                 \<and> className r = CLASS_NAMES ! nat idx \<and> confidence r = conf
                 \<and> predict ext svc buf (Inr (JObj kvs)) = (jsonify_result r, 200)))
         \<and> (int (length CLASS_NAMES) \<le> idx \<longrightarrow>
            model_predict ext svc img = None
            \<and> predict ext svc buf (Inr (JObj kvs))
                = (JObj [(''error'', JStr ''Prediction failed'')], 500))"
proof -
  have p: "predict ext svc buf (Inr (JObj kvs)) = respond (model_predict ext svc img)"
    using assms(1-4) by (rule predict_image_decoded)
  show ?thesis
  proof (intro conjI impI)
    assume "0 \<le> idx \<and> idx < int (length CLASS_NAMES)"
    then obtain r where "model_predict ext svc img = Some r"
      and "className r = CLASS_NAMES ! nat idx" and "confidence r = conf"
      using model_predict_in_range[OF assms(5)] by blast
    then show "\<exists>r. model_predict ext svc img = Some r
                 \<and> className r = CLASS_NAMES ! nat idx \<and> confidence r = conf
                 \<and> predict ext svc buf (Inr (JObj kvs)) = (jsonify_result r, 200)"
      using p by (simp add: respond_def)
  next
    assume "int (length CLASS_NAMES) \<le> idx"
    then show "model_predict ext svc img = None"
      using model_predict_out_of_range[OF assms(5)] by simp
    then show "predict ext svc buf (Inr (JObj kvs))
                = (JObj [(''error'', JStr ''Prediction failed'')], 500)"
      using p by (simp add: respond_def error_body_def)
  qed
qed

theorem index_to_label_mapping_witness:
  "(\<exists>r. model_predict sample_externals sample_service () = Some r
        \<and> className r = ''Apple___healthy''
        \<and> predict sample_externals sample_service sample_buffer
            (Inr (JObj [(''image'', JStr sample_payload)])) = (jsonify_result r, 200))
   \<and> model_predict externals_index_39 sample_service () = None
   \<and> predict externals_index_39 sample_service sample_buffer
       (Inr (JObj [(''image'', JStr sample_payload)]))
       = (JObj [(''error'', JStr ''Prediction failed'')], 500)"
proof -
  have m: "map_of [(''image'', JStr sample_payload)] ''image'' = Some (JStr sample_payload)"
    by simp
  note s = sample_payload_steps(1)
  have b: "b64decode sample_externals sample_payload = Inr sample_png"
    by (simp add: sample_externals_def sample_payload_steps)
  have i: "image_open sample_externals sample_png = Inr ()"
    by (simp add: sample_externals_def sample_payload_steps)
  have f: "forward sample_externals (model sample_service) () = Inr (1, 3)"
    by (simp add: sample_externals_def)
  have b': "b64decode externals_index_39 sample_payload = Inr sample_png"
    by (simp add: externals_index_39_def sample_externals_def sample_payload_steps)
  have i': "image_open externals_index_39 sample_png = Inr ()"
    by (simp add: externals_index_39_def sample_externals_def sample_payload_steps)
  have f': "forward externals_index_39 (model sample_service) () = Inr (1, 39)"
    by (simp add: externals_index_39_def sample_externals_def)
  have len: "int (length CLASS_NAMES) = 39" by (simp add: length_CLASS_NAMES)
  have n3: "CLASS_NAMES ! nat 3 = ''Apple___healthy''" by (simp add: CLASS_NAMES_def)
  have a: "\<exists>r. model_predict sample_externals sample_service () = Some r
                 \<and> className r = CLASS_NAMES ! nat 3 \<and> confidence r = 1
                 \<and> predict sample_externals sample_service sample_buffer
                      (Inr (JObj [(''image'', JStr sample_payload)]))
                     = (jsonify_result r, 200)"
    using index_to_label_mapping[OF m s b i f, where buf = sample_buffer]
    by (simp add: len)
  have c: "model_predict externals_index_39 sample_service () = None
            \<and> predict externals_index_39 sample_service sample_buffer
                 (Inr (JObj [(''image'', JStr sample_payload)]))
                = (JObj [(''error'', JStr ''Prediction failed'')], 500)"
    using index_to_label_mapping[OF m s b' i' f', where buf = sample_buffer]
    by (simp add: len)
  show ?thesis using a c n3 by auto
qed

theorem out_of_range_index_counterexample:
  "model_predict externals_index_39 sample_service () = None
   \<and> predict externals_index_39 sample_service sample_buffer
       (Inr (JObj [(''image'', JStr sample_payload)]))
       = (JObj [(''error'', JStr ''Prediction failed'')], 500)"
proof -
  have n: "model_predict externals_index_39 sample_service () = None"
    by (simp add: model_predict_def externals_index_39_def sample_externals_def
          py_index_def length_CLASS_NAMES)
  have "predict externals_index_39 sample_service sample_buffer
          (Inr (JObj [(''image'', JStr sample_payload)]))
        = respond (model_predict externals_index_39 sample_service ())"
    by (rule predict_image_decoded[where v = "JStr sample_payload" and p = sample_payload
                                     and bs = sample_png])
       (simp_all add: externals_index_39_def sample_externals_def sample_payload_steps)
  then show ?thesis using n by (simp add: respond_def error_body_def)
qed

text \<open>
  C5. After an initialization that completed, whether the weights were loaded or the
  untrained network was substituted, the model is not \<^verbatim>\<open>None\<close>, and GET /health
  answers 200 with \<open>model_loaded\<close> true.
\<close>

theorem health_after_initialization:
  assumes "init_model_service ext = Inr svc"
  shows "model svc \<noteq> PyNone
         \<and> ((\<exists>obj. torch_load ext = Inr obj \<and> py_eval ext obj = Inr () \<and> model svc = obj)
            \<or> (\<exists>m. resnet18 ext = Inr m \<and> model svc = PyObject m))
         \<and> health_check svc
             = (JObj [(''status'', JStr ''healthy''), (''model_loaded'', JBool True)], 200)"
proof -
  have c: "(\<exists>obj. torch_load ext = Inr obj \<and> py_eval ext obj = Inr () \<and> model svc = obj)
            \<or> (\<exists>m. resnet18 ext = Inr m \<and> model svc = PyObject m)"
    using assms unfolding init_model_service_def by (rule load_model_cases)
  then have n: "model svc \<noteq> PyNone" using py_eval_None[of ext "()"] by auto
  then show ?thesis using c by (simp add: health_check_def)
qed

theorem health_after_initialization_witness:
  "init_model_service sample_externals = Inr \<lparr>model = PyObject 0\<rparr>
   \<and> health_check \<lparr>model = PyObject 0\<rparr>
       = (JObj [(''status'', JStr ''healthy''), (''model_loaded'', JBool True)], 200)
   \<and> init_model_service externals_weights_loaded = Inr \<lparr>model = PyObject 7\<rparr>
   \<and> health_check \<lparr>model = PyObject 7\<rparr>
       = (JObj [(''status'', JStr ''healthy''), (''model_loaded'', JBool True)], 200)"
proof -
  have a: "init_model_service sample_externals = Inr \<lparr>model = PyObject 0\<rparr>"
    by (simp add: init_model_service_def load_model_def load_fallback_def
          sample_externals_def)
  have b: "init_model_service externals_weights_loaded = Inr \<lparr>model = PyObject 7\<rparr>"
    by (simp add: init_model_service_def load_model_def py_eval_def
          externals_weights_loaded_def sample_externals_def)
  show ?thesis
    using a b health_after_initialization[OF a] health_after_initialization[OF b] by simp
qed

text \<open>
  C6. If the forward pass or the label lookup raises, the predictor returns \<^verbatim>\<open>None\<close>
  instead of raising, and both handlers, once they hold the image, answer 500 with the
  body \<^verbatim>\<open>{"error": "Prediction failed"}\<close>.
\<close>

theorem inference_exception_gives_500:
  assumes "forward ext (model svc) img = Inl e
           \<or> (\<exists>c i. forward ext (model svc) img = Inr (c, i)
                    \<and> py_index CLASS_NAMES i = Inl e)"
  shows "model_predict ext svc img = None
         \<and> (\<forall>kvs v p bs buf.
               map_of kvs ''image'' = Some v \<and> strip_data_url v = Inr p
               \<and> b64decode ext p = Inr bs \<and> image_open ext bs = Inr img
               \<longrightarrow> predict ext svc buf (Inr (JObj kvs))
                     = (JObj [(''error'', JStr ''Prediction failed'')], 500))
         \<and> (\<forall>kvs u resp buf.
               map_of kvs ''url'' = Some u \<and> requests_get ext u = Inr resp
               \<and> raise_for_status resp = Inr () \<and> image_open ext (content resp) = Inr img
               \<longrightarrow> predict_from_url ext svc buf (Inr (JObj kvs))
                     = (JObj [(''error'', JStr ''Prediction failed'')], 500))"
proof -
  have n: "model_predict ext svc img = None"
    using assms by (auto simp: model_predict_def)
  then have r: "respond (model_predict ext svc img)
                 = (JObj [(''error'', JStr ''Prediction failed'')], 500)"
    by (simp add: respond_def error_body_def)
  show ?thesis
    using n r predict_image_decoded[of _ _ _ ext _ img svc]
      predict_from_url_downloaded[of _ _ ext _ img svc]
    by auto
qed

theorem inference_exception_gives_500_witness:
  "model_predict externals_forward_raises sample_service () = None
   \<and> predict externals_forward_raises sample_service sample_buffer
       (Inr (JObj [(''image'', JStr sample_payload)]))
       = (JObj [(''error'', JStr ''Prediction failed'')], 500)
   \<and> predict_from_url externals_forward_raises sample_service sample_buffer
       (Inr (JObj [(''url'', JStr ''http://example.org/leaf.png'')]))
       = (JObj [(''error'', JStr ''Prediction failed'')], 500)"
proof -
  have f: "forward externals_forward_raises (model sample_service) ()
             = Inl (Exn RuntimeError ''shape mismatch'')"
    by (simp add: externals_forward_raises_def sample_externals_def)
  note c6 = inference_exception_gives_500
              [of externals_forward_raises sample_service "()"
                  "Exn RuntimeError ''shape mismatch''", OF disjI1, OF f]
  have i: "map_of [(''image'', JStr sample_payload)] ''image'' = Some (JStr sample_payload)
           \<and> strip_data_url (JStr sample_payload) = Inr sample_payload
           \<and> b64decode externals_forward_raises sample_payload = Inr sample_png
           \<and> image_open externals_forward_raises sample_png = Inr ()"
    by (simp add: externals_forward_raises_def sample_externals_def sample_payload_steps)
  have u: "map_of [(''url'', JStr ''http://example.org/leaf.png'')] ''url''
             = Some (JStr ''http://example.org/leaf.png'')
           \<and> requests_get externals_forward_raises (JStr ''http://example.org/leaf.png'')
               = Inr \<lparr>status_code = 200, content = sample_png, http_error_msg = []\<rparr>
           \<and> raise_for_status \<lparr>status_code = 200, content = sample_png, http_error_msg = []\<rparr>
               = Inr ()
           \<and> image_open externals_forward_raises
                (content \<lparr>status_code = 200, content = sample_png, http_error_msg = []\<rparr>)
               = Inr ()"
    by (simp add: raise_for_status_def externals_forward_raises_def sample_externals_def
          sample_payload_steps)
  show ?thesis using c6 i u by blast
qed

text \<open>
  C7. For every POST /predict whose JSON body is an object without the key
  \<^verbatim>\<open>image\<close>, the response is 400 with exactly the body
  \<^verbatim>\<open>{"error": "No image provided"}\<close>.
\<close>

theorem missing_image_gives_400:
  assumes "map_of kvs ''image'' = None"
  shows "predict ext svc buf (Inr (JObj kvs))
           = (JObj [(''error'', JStr ''No image provided'')], 400)"
  using assms by (simp add: predict_def predict_try_def error_body_def)

theorem missing_image_gives_400_witness:
  "map_of [(''url'', JStr ''http://example.org/leaf.png'')] ''image'' = None
   \<and> predict sample_externals sample_service sample_buffer
       (Inr (JObj [(''url'', JStr ''http://example.org/leaf.png'')]))
       = (JObj [(''error'', JStr ''No image provided'')], 400)"
proof -
  have h: "map_of [(''url'', JStr ''http://example.org/leaf.png'')] ''image'' = None"
    by simp
  show ?thesis
    using h missing_image_gives_400[OF h, of sample_externals sample_service sample_buffer]
    by simp
qed

text \<open>
  C8, as amended. For every base64 payload \<open>s\<close> and every media subtype without a
  comma, the value \<^verbatim>\<open>data:image/<subtype>;base64,<s>\<close> and the bare \<open>s\<close> leave the same
  text to \<^verbatim>\<open>base64.b64decode\<close>, so the same bytes are decoded, and the two responses of
  POST /predict have the same status. They are identical when the decoding fails or
  when the bytes open as an image. When the bytes do not open as an image, both are 500
  and each carries the text of its own exception, which names the buffer object of its
  own request.
\<close>

theorem data_url_prefix_same_payload:
  assumes "base64_payload s" and "CHR '','' \<notin> set subtype"
  shows "strip_data_url (JStr (''data:image/'' @ subtype @ '';base64,'' @ s)) = Inr s
         \<and> strip_data_url (JStr s) = Inr s
         \<and> snd (predict ext svc buf
                  (Inr (JObj ((''image'', JStr (''data:image/'' @ subtype @ '';base64,'' @ s))
                              # other))))
             = snd (predict ext svc buf' (Inr (JObj ((''image'', JStr s) # other))))
         \<and> ((\<exists>e. b64decode ext s = Inl e)
              \<or> (\<exists>bs img. b64decode ext s = Inr bs \<and> image_open ext bs = Inr img)
             \<longrightarrow> predict ext svc buf
                   (Inr (JObj ((''image'', JStr (''data:image/'' @ subtype @ '';base64,'' @ s))
                               # other)))
                 = predict ext svc buf' (Inr (JObj ((''image'', JStr s) # other))))
         \<and> (\<forall>bs raise. b64decode ext s = Inr bs \<and> image_open ext bs = Inl raise
             \<longrightarrow> predict ext svc buf
                   (Inr (JObj ((''image'', JStr (''data:image/'' @ subtype @ '';base64,'' @ s))
                               # other)))
                 = (JObj [(''error'', JStr (exn_str (raise buf)))], 500)
               \<and> predict ext svc buf' (Inr (JObj ((''image'', JStr s) # other)))
                 = (JObj [(''error'', JStr (exn_str (raise buf')))], 500))"
proof -
  define prefixed where "prefixed = ''data:image/'' @ subtype @ '';base64,'' @ s"
  have a: "strip_data_url (JStr prefixed) = Inr s"
    unfolding prefixed_def
    using assms(2) base64_payload_no_comma[OF assms(1)] by (rule strip_data_url_prefixed)
  have b: "strip_data_url (JStr s) = Inr s"
    using base64_payload_not_data_url[OF assms(1)] by (simp add: strip_data_url_def)
  note p = predict_payload[OF a, of ext svc buf other]
  note q = predict_payload[OF b, of ext svc buf' other]
  have st: "snd (predict ext svc buf (Inr (JObj ((''image'', JStr prefixed) # other))))
             = snd (predict ext svc buf' (Inr (JObj ((''image'', JStr s) # other))))"
    unfolding p q by (simp split: sum.splits)
  have same: "predict ext svc buf (Inr (JObj ((''image'', JStr prefixed) # other)))
                = predict ext svc buf' (Inr (JObj ((''image'', JStr s) # other)))"
    if "(\<exists>e. b64decode ext s = Inl e)
        \<or> (\<exists>bs img. b64decode ext s = Inr bs \<and> image_open ext bs = Inr img)"
    using that unfolding p q by auto
  have fail: "predict ext svc buf (Inr (JObj ((''image'', JStr prefixed) # other)))
                 = (JObj [(''error'', JStr (exn_str (raise buf)))], 500)
               \<and> predict ext svc buf' (Inr (JObj ((''image'', JStr s) # other)))
                 = (JObj [(''error'', JStr (exn_str (raise buf')))], 500)"
    if "b64decode ext s = Inr bs \<and> image_open ext bs = Inl raise" for bs raise
    using that unfolding p q by (simp add: error_body_def)
  show ?thesis
    using a b st same fail unfolding prefixed_def by blast
qed

theorem data_url_prefix_same_payload_witness:
  "base64_payload sample_payload
   \<and> strip_data_url (JStr (''data:image/'' @ ''png'' @ '';base64,'' @ sample_payload))
       = Inr sample_payload
   \<and> predict sample_externals sample_service sample_buffer
        (Inr (JObj [(''image'',
                     JStr (''data:image/'' @ ''png'' @ '';base64,'' @ sample_payload))]))
       = predict sample_externals sample_service other_buffer
           (Inr (JObj [(''image'', JStr sample_payload)]))
   \<and> base64_payload ''QUJD''
   \<and> predict sample_externals sample_service sample_buffer
        (Inr (JObj [(''image'', JStr (''data:image/'' @ ''jpeg'' @ '';base64,'' @ ''QUJD''))]))
       = (JObj [(''error'', JStr (''cannot identify image file '' @ sample_buffer))], 500)
   \<and> predict sample_externals sample_service other_buffer
        (Inr (JObj [(''image'', JStr ''QUJD'')]))
       = (JObj [(''error'', JStr (''cannot identify image file '' @ other_buffer))], 500)"
proof -
  note p = sample_payload_base64
  have c: "CHR '','' \<notin> set ''png''" by simp
  have ok: "\<exists>bs img. b64decode sample_externals sample_payload = Inr bs
                     \<and> image_open sample_externals bs = Inr img"
    by (simp add: sample_externals_def sample_payload_steps)
  note t1 = data_url_prefix_same_payload
              [OF p c, of sample_externals sample_service sample_buffer "[]" other_buffer]
  have 1: "strip_data_url (JStr (''data:image/'' @ ''png'' @ '';base64,'' @ sample_payload))
             = Inr sample_payload"
    using t1 by (rule conjunct1)
  have 2: "predict sample_externals sample_service sample_buffer
        (Inr (JObj [(''image'',
                     JStr (''data:image/'' @ ''png'' @ '';base64,'' @ sample_payload))]))
       = predict sample_externals sample_service other_buffer
           (Inr (JObj [(''image'', JStr sample_payload)]))"
    using t1 ok by blast
  have p': "base64_payload ''QUJD''" by (simp add: base64_payload_def is_base64_char_def)
  have c': "CHR '','' \<notin> set ''jpeg''" by simp
  have no: "b64decode sample_externals ''QUJD'' = Inr ''ABC''
            \<and> image_open sample_externals ''ABC''
                = Inl (\<lambda>buf. Exn UnidentifiedImageError (''cannot identify image file '' @ buf))"
    by (simp add: sample_externals_def sample_text_steps)
  note t2 = data_url_prefix_same_payload
              [OF p' c', of sample_externals sample_service sample_buffer "[]" other_buffer]
  have 3: "predict sample_externals sample_service sample_buffer
        (Inr (JObj [(''image'', JStr (''data:image/'' @ ''jpeg'' @ '';base64,'' @ ''QUJD''))]))
       = (JObj [(''error'', JStr (exn_str (Exn UnidentifiedImageError
                  (''cannot identify image file '' @ sample_buffer))))], 500)
     \<and> predict sample_externals sample_service other_buffer
        (Inr (JObj [(''image'', JStr ''QUJD'')]))
       = (JObj [(''error'', JStr (exn_str (Exn UnidentifiedImageError
                  (''cannot identify image file '' @ other_buffer))))], 500)"
    using t2 no by blast
  show ?thesis using p 1 2 p' 3 by (simp only: exn_str.simps simp_thms)
qed

theorem data_url_prefix_counterexample:
  "predict sample_externals sample_service sample_buffer
     (Inr (JObj [(''image'', JStr ''data:image/jpeg;base64,QUJD'')]))
   \<noteq> predict sample_externals sample_service other_buffer
       (Inr (JObj [(''image'', JStr ''QUJD'')]))"
proof -
  have c: "CHR '','' \<notin> set ''jpeg''" and c': "CHR '','' \<notin> set ''QUJD''" by simp_all
  have "strip_data_url (JStr (''data:image/'' @ ''jpeg'' @ '';base64,'' @ ''QUJD''))
          = Inr ''QUJD''"
    using c c' by (rule strip_data_url_prefixed)
  then have a: "strip_data_url (JStr ''data:image/jpeg;base64,QUJD'') = Inr ''QUJD''"
    by simp
  have 1: "predict sample_externals sample_service sample_buffer
             (Inr (JObj [(''image'', JStr ''data:image/jpeg;base64,QUJD'')]))
           = (error_body (''cannot identify image file '' @ sample_buffer), 500)"
    unfolding predict_payload[OF a]
    by (simp add: sample_externals_def sample_text_steps)
  have 2: "predict sample_externals sample_service other_buffer
             (Inr (JObj [(''image'', JStr ''QUJD'')]))
           = (error_body (''cannot identify image file '' @ other_buffer), 500)"
    unfolding predict_payload[OF sample_text_steps(1)]
    by (simp add: sample_externals_def sample_text_steps)
  show ?thesis
    unfolding 1 2 by (simp add: error_body_def sample_buffer_def other_buffer_def)
qed

text \<open>
  C9, as amended. For every POST /predict_url whose body holds a URL: when
  \<^verbatim>\<open>requests.get\<close> raises an exception of \<^verbatim>\<open>requests\<close> (an unreachable URL), or the
  response has a status from 400 to 599, the answer is 400 with a non-empty message
  that starts with \<^verbatim>\<open>Failed to download image:\<close>. A response with any other status
  counts as downloaded, whatever the status: when its body opens as an image and the
  predictor gives a result the answer is that result with status 200; when opening
  the body raises another exception, or the predictor returns \<^verbatim>\<open>None\<close>, the answer is
  500.
\<close>

theorem predict_from_url_failures:
  assumes "map_of kvs ''url'' = Some u"
  shows "(\<forall>e. requests_get ext u = Inl e \<and> is_request_exception e \<longrightarrow>
            ''Failed to download image: '' @ exn_str e \<noteq> []
            \<and> predict_from_url ext svc buf (Inr (JObj kvs))
                = (JObj [(''error'', JStr (''Failed to download image: '' @ exn_str e))], 400))
         \<and> (\<forall>resp. requests_get ext u = Inr resp
                  \<and> 400 \<le> status_code resp \<and> status_code resp < 600 \<longrightarrow>
            ''Failed to download image: '' @ http_error_msg resp \<noteq> []
            \<and> predict_from_url ext svc buf (Inr (JObj kvs))
                = (JObj [(''error'',
                          JStr (''Failed to download image: '' @ http_error_msg resp))], 400))
         \<and> (\<forall>resp raise. requests_get ext u = Inr resp
                  \<and> \<not> (400 \<le> status_code resp \<and> status_code resp < 600)
                  \<and> image_open ext (content resp) = Inl raise
                  \<and> \<not> is_request_exception (raise buf) \<longrightarrow>
            predict_from_url ext svc buf (Inr (JObj kvs))
              = (JObj [(''error'', JStr (exn_str (raise buf)))], 500))
         \<and> (\<forall>resp img. requests_get ext u = Inr resp
                  \<and> \<not> (400 \<le> status_code resp \<and> status_code resp < 600)
                  \<and> image_open ext (content resp) = Inr img
                  \<and> model_predict ext svc img = None \<longrightarrow>
            predict_from_url ext svc buf (Inr (JObj kvs))
              = (JObj [(''error'', JStr ''Prediction failed'')], 500))
         \<and> (\<forall>resp img r. requests_get ext u = Inr resp
                  \<and> \<not> (400 \<le> status_code resp \<and> status_code resp < 600)
                  \<and> image_open ext (content resp) = Inr img
                  \<and> model_predict ext svc img = Some r \<longrightarrow>
            predict_from_url ext svc buf (Inr (JObj kvs)) = (jsonify_result r, 200))"
proof (intro conjI allI impI)
  fix e assume "requests_get ext u = Inl e \<and> is_request_exception e"
  then show "predict_from_url ext svc buf (Inr (JObj kvs))
       = (JObj [(''error'', JStr (''Failed to download image: '' @ exn_str e))], 400)"
    using assms by (simp add: predict_from_url_def predict_from_url_try_def error_body_def)
next
  fix resp assume "requests_get ext u = Inr resp
                  \<and> 400 \<le> status_code resp \<and> status_code resp < 600"
  then show "predict_from_url ext svc buf (Inr (JObj kvs))
       = (JObj [(''error'', JStr (''Failed to download image: '' @ http_error_msg resp))], 400)"
    using assms
    by (simp add: predict_from_url_def predict_from_url_try_def raise_for_status_def
          error_body_def)
next
  fix resp raise
  assume "requests_get ext u = Inr resp
          \<and> \<not> (400 \<le> status_code resp \<and> status_code resp < 600)
          \<and> image_open ext (content resp) = Inl raise \<and> \<not> is_request_exception (raise buf)"
  then show "predict_from_url ext svc buf (Inr (JObj kvs))
              = (JObj [(''error'', JStr (exn_str (raise buf)))], 500)"
    using assms
    by (simp add: predict_from_url_def predict_from_url_try_def raise_for_status_def
          error_body_def)
next
  fix resp img
  assume "requests_get ext u = Inr resp
          \<and> \<not> (400 \<le> status_code resp \<and> status_code resp < 600)
          \<and> image_open ext (content resp) = Inr img \<and> model_predict ext svc img = None"
  then show "predict_from_url ext svc buf (Inr (JObj kvs))
              = (JObj [(''error'', JStr ''Prediction failed'')], 500)"
    using assms
    by (simp add: predict_from_url_def predict_from_url_try_def raise_for_status_def
          respond_def error_body_def)
next
  fix resp img r
  assume "requests_get ext u = Inr resp
          \<and> \<not> (400 \<le> status_code resp \<and> status_code resp < 600)
          \<and> image_open ext (content resp) = Inr img \<and> model_predict ext svc img = Some r"
  then show "predict_from_url ext svc buf (Inr (JObj kvs)) = (jsonify_result r, 200)"
    using assms
    by (simp add: predict_from_url_def predict_from_url_try_def raise_for_status_def
          respond_def)
qed simp_all

theorem predict_from_url_failures_witness:
  "predict_from_url externals_unreachable sample_service sample_buffer
     (Inr (JObj [(''url'', JStr ''http://example.org/leaf.png'')]))
     = (JObj [(''error'', JStr ''Failed to download image: Max retries exceeded'')], 400)
   \<and> predict_from_url
       (externals_status 404 ''Not Found'' ''404 Client Error: Not Found for url'')
       sample_service sample_buffer
       (Inr (JObj [(''url'', JStr ''http://example.org/leaf.png'')]))
       = (JObj [(''error'',
                 JStr ''Failed to download image: 404 Client Error: Not Found for url'')],
          400)
   \<and> predict_from_url (externals_status 200 ''<html></html>'' []) sample_service
       sample_buffer (Inr (JObj [(''url'', JStr ''http://example.org/leaf.png'')]))
       = (JObj [(''error'', JStr (''cannot identify image file '' @ sample_buffer))], 500)
   \<and> predict_from_url externals_forward_raises sample_service sample_buffer
       (Inr (JObj [(''url'', JStr ''http://example.org/leaf.png'')]))
       = (JObj [(''error'', JStr ''Prediction failed'')], 500)
   \<and> (\<exists>r. model_predict (externals_status 200 sample_png []) sample_service () = Some r
          \<and> predict_from_url (externals_status 200 sample_png []) sample_service
               sample_buffer (Inr (JObj [(''url'', JStr ''http://example.org/leaf.png'')]))
              = (jsonify_result r, 200))"
proof -
  have m: "map_of [(''url'', JStr ''http://example.org/leaf.png'')] ''url''
             = Some (JStr ''http://example.org/leaf.png'')" by simp
  have a: "requests_get externals_unreachable (JStr ''http://example.org/leaf.png'')
             = Inl (Exn RequestsConnectionError ''Max retries exceeded'')
           \<and> is_request_exception (Exn RequestsConnectionError ''Max retries exceeded'')"
    by (simp add: externals_unreachable_def sample_externals_def)
  have b: "requests_get
             (externals_status 404 ''Not Found'' ''404 Client Error: Not Found for url'')
             (JStr ''http://example.org/leaf.png'')
             = Inr \<lparr>status_code = 404, content = ''Not Found'',
                    http_error_msg = ''404 Client Error: Not Found for url''\<rparr>
           \<and> 400 \<le> status_code \<lparr>status_code = 404, content = ''Not Found'',
                    http_error_msg = ''404 Client Error: Not Found for url''\<rparr>
           \<and> status_code \<lparr>status_code = 404, content = ''Not Found'',
                    http_error_msg = ''404 Client Error: Not Found for url''\<rparr> < 600"
    by (simp add: externals_status_def sample_externals_def)
  have c: "requests_get (externals_status 200 ''<html></html>'' [])
             (JStr ''http://example.org/leaf.png'')
             = Inr \<lparr>status_code = 200, content = ''<html></html>'', http_error_msg = []\<rparr>
           \<and> \<not> (400 \<le> status_code
                     \<lparr>status_code = 200, content = ''<html></html>'', http_error_msg = []\<rparr>
                \<and> status_code
                     \<lparr>status_code = 200, content = ''<html></html>'', http_error_msg = []\<rparr>
                   < 600)
           \<and> image_open (externals_status 200 ''<html></html>'' [])
               (content \<lparr>status_code = 200, content = ''<html></html>'',
                         http_error_msg = []\<rparr>)
               = Inl (\<lambda>buf. Exn UnidentifiedImageError (''cannot identify image file '' @ buf))
           \<and> \<not> is_request_exception
                 ((\<lambda>buf. Exn UnidentifiedImageError (''cannot identify image file '' @ buf))
                    sample_buffer)"
    by (simp add: externals_status_def sample_externals_def sample_image_open_def
          sample_png_def)
  have d: "requests_get externals_forward_raises (JStr ''http://example.org/leaf.png'')
             = Inr \<lparr>status_code = 200, content = sample_png, http_error_msg = []\<rparr>
           \<and> \<not> (400 \<le> status_code
                     \<lparr>status_code = 200, content = sample_png, http_error_msg = []\<rparr>
                \<and> status_code
                     \<lparr>status_code = 200, content = sample_png, http_error_msg = []\<rparr> < 600)
           \<and> image_open externals_forward_raises
               (content \<lparr>status_code = 200, content = sample_png, http_error_msg = []\<rparr>)
               = Inr ()
           \<and> model_predict externals_forward_raises sample_service () = None"
    by (simp add: externals_forward_raises_def sample_externals_def sample_payload_steps
          model_predict_def)
  have "forward (externals_status 200 sample_png []) (model sample_service) () = Inr (1, 3)"
    by (simp add: externals_status_def sample_externals_def)
  then obtain r where r: "model_predict (externals_status 200 sample_png []) sample_service ()
                           = Some r"
    using model_predict_in_range[of "externals_status 200 sample_png []" sample_service "()" 1 3]
    by (auto simp: length_CLASS_NAMES)
  have e: "requests_get (externals_status 200 sample_png [])
             (JStr ''http://example.org/leaf.png'')
             = Inr \<lparr>status_code = 200, content = sample_png, http_error_msg = []\<rparr>
           \<and> \<not> (400 \<le> status_code
                     \<lparr>status_code = 200, content = sample_png, http_error_msg = []\<rparr>
                \<and> status_code
                     \<lparr>status_code = 200, content = sample_png, http_error_msg = []\<rparr> < 600)
           \<and> image_open (externals_status 200 sample_png [])
               (content \<lparr>status_code = 200, content = sample_png, http_error_msg = []\<rparr>)
               = Inr ()"
    by (simp add: externals_status_def sample_externals_def sample_payload_steps)
  have 1: "predict_from_url externals_unreachable sample_service sample_buffer
     (Inr (JObj [(''url'', JStr ''http://example.org/leaf.png'')]))
     = (JObj [(''error'', JStr ''Failed to download image: Max retries exceeded'')], 400)"
    using predict_from_url_failures
            [OF m, where ext = externals_unreachable and svc = sample_service
                       and buf = sample_buffer] a
    by fastforce
  have 2: "predict_from_url
       (externals_status 404 ''Not Found'' ''404 Client Error: Not Found for url'')
       sample_service sample_buffer
       (Inr (JObj [(''url'', JStr ''http://example.org/leaf.png'')]))
       = (JObj [(''error'',
                 JStr ''Failed to download image: 404 Client Error: Not Found for url'')],
          400)"
    using predict_from_url_failures
            [OF m, where ext = "externals_status 404 ''Not Found''
                                           ''404 Client Error: Not Found for url''"
                       and svc = sample_service and buf = sample_buffer] b
    by fastforce
  have 3: "predict_from_url (externals_status 200 ''<html></html>'' []) sample_service
       sample_buffer (Inr (JObj [(''url'', JStr ''http://example.org/leaf.png'')]))
       = (JObj [(''error'', JStr (''cannot identify image file '' @ sample_buffer))], 500)"
    using predict_from_url_failures
            [OF m, where ext = "externals_status 200 ''<html></html>'' []"
                       and svc = sample_service and buf = sample_buffer]
          c
    by fastforce
  have 4: "predict_from_url externals_forward_raises sample_service sample_buffer
       (Inr (JObj [(''url'', JStr ''http://example.org/leaf.png'')]))
       = (JObj [(''error'', JStr ''Prediction failed'')], 500)"
    using predict_from_url_failures
            [OF m, where ext = externals_forward_raises and svc = sample_service
                       and buf = sample_buffer] d
    by fastforce
  have 5: "predict_from_url (externals_status 200 sample_png []) sample_service
               sample_buffer (Inr (JObj [(''url'', JStr ''http://example.org/leaf.png'')]))
              = (jsonify_result r, 200)"
    using predict_from_url_failures
            [OF m, where ext = "externals_status 200 sample_png []"
                       and svc = sample_service and buf = sample_buffer] e r
    by fastforce
  show ?thesis using 1 2 3 4 5 r by blast
qed

theorem non_success_status_counterexample:
  "snd (predict_from_url (externals_status 304 [] []) sample_service sample_buffer
          (Inr (JObj [(''url'', JStr ''http://example.org/leaf.png'')]))) = 500
   \<and> snd (predict_from_url (externals_status 399 sample_png []) sample_service sample_buffer
            (Inr (JObj [(''url'', JStr ''http://example.org/leaf.png'')]))) = 200"
proof -
  have 1: "predict_from_url (externals_status 304 [] []) sample_service sample_buffer
             (Inr (JObj [(''url'', JStr ''http://example.org/leaf.png'')]))
           = (error_body (''cannot identify image file '' @ sample_buffer), 500)"
    by (simp add: predict_from_url_def predict_from_url_try_def raise_for_status_def
          externals_status_def sample_externals_def sample_image_open_def sample_png_def)
  have "forward (externals_status 399 sample_png []) (model sample_service) () = Inr (1, 3)"
    by (simp add: externals_status_def sample_externals_def)
  then have r: "model_predict (externals_status 399 sample_png []) sample_service () \<noteq> None"
    using model_predict_in_range[of "externals_status 399 sample_png []" sample_service "()" 1 3]
    by (auto simp: length_CLASS_NAMES)
  have "predict_from_url (externals_status 399 sample_png []) sample_service sample_buffer
          (Inr (JObj [(''url'', JStr ''http://example.org/leaf.png'')]))
        = respond (model_predict (externals_status 399 sample_png []) sample_service ())"
    by (rule predict_from_url_downloaded
               [where u = "JStr ''http://example.org/leaf.png''"
                  and resp = "\<lparr>status_code = 399, content = sample_png, http_error_msg = []\<rparr>"])
       (simp_all add: externals_status_def sample_externals_def raise_for_status_def
          sample_payload_steps)
  then have 2: "snd (predict_from_url (externals_status 399 sample_png []) sample_service
                       sample_buffer
                       (Inr (JObj [(''url'', JStr ''http://example.org/leaf.png'')]))) = 200"
    using r by (simp add: snd_respond)
  show ?thesis using 1 2 by simp
qed

text \<open>
  C10, as amended. For a POST /predict whose parsed body is JSON null, a boolean or a
  number, the membership test raises TypeError and the answer is 500 with the text of
  the exception. For a body that is a string or an array the membership test raises
  nothing: without the text \<^verbatim>\<open>image\<close> in the string (without the element
  \<^verbatim>\<open>"image"\<close> in the array) the answer is 400 \<^verbatim>\<open>{"error": "No image provided"}\<close>,
  and with it the subscript \<^verbatim>\<open>data['image']\<close> raises TypeError and the answer is 500
  with the text of that exception.
\<close>

theorem predict_body_not_an_object:
  "(data = JNull \<or> (\<exists>b. data = JBool b) \<or> (\<exists>i. data = JInt i) \<or> (\<exists>x. data = JFloat x)
      \<longrightarrow> predict ext svc buf (Inr data)
           = (JObj [(''error'',
                     JStr (''argument of type '' @ py_quote (py_type_name data)
                           @ '' is not iterable''))], 500))
   \<and> predict ext svc buf (Inr (JStr s))
       = (if str_contains ''image'' s
          then (JObj [(''error'', JStr (str_index_error (python ext)))], 500)
          else (JObj [(''error'', JStr ''No image provided'')], 400))
   \<and> predict ext svc buf (Inr (JArr xs))
       = (if JStr ''image'' \<in> set xs
          then (JObj [(''error'',
                       JStr ''list indices must be integers or slices, not str'')], 500)
          else (JObj [(''error'', JStr ''No image provided'')], 400))"
  by (auto simp: predict_def predict_try_def error_body_def)

theorem predict_body_not_an_object_witness:
  "predict sample_externals sample_service sample_buffer (Inr JNull)
     = (JObj [(''error'',
               JStr (''argument of type '' @ py_quote ''NoneType'' @ '' is not iterable''))],
        500)
   \<and> predict sample_externals sample_service sample_buffer (Inr (JStr ''no picture''))
       = (JObj [(''error'', JStr ''No image provided'')], 400)
   \<and> predict sample_externals sample_service sample_buffer (Inr (JArr [JStr ''image'']))
       = (JObj [(''error'',
                 JStr ''list indices must be integers or slices, not str'')], 500)"
proof -
  have s: "\<not> str_contains ''image'' ''no picture''" by (simp add: startswith_def)
  show ?thesis
    using predict_body_not_an_object
            [of JNull sample_externals sample_service sample_buffer "''no picture''"
                "[JStr ''image'']"] s
    by simp
qed

theorem predict_body_not_an_object_counterexample:
  "predict sample_externals sample_service sample_buffer (Inr (JArr []))
     = (JObj [(''error'', JStr ''No image provided'')], 400)
   \<and> predict sample_externals sample_service sample_buffer (Inr (JStr ''hello''))
       = (JObj [(''error'', JStr ''No image provided'')], 400)"
  by (simp add: predict_def predict_try_def error_body_def startswith_def)

end
